theory Spec2Isabelle
  imports Complex_Main
begin

section \<open>The camera of gogame (camera.go)\<close>

text \<open>
  The camera maps points between game space and display space and forwards drawing
  primitives to a video output. Go's \<^verbatim>\<open>float64\<close> is idealised: a finite value is a
  \<^typ>\<open>real\<close> and arithmetic on finite values is exact (no rounding, no overflow).
  Every input of the camera (coordinates, center, zoom, the rectangle of the output) is
  a finite value. The one operation of camera.go that leaves the finite values is the
  division by a zoom component that is zero: in Go the quotient is then an infinity or
  a NaN, here it is \<open>NonFinite\<close>.
\<close>

subsection \<open>Numbers\<close>

datatype float64 = Finite real | NonFinite

text \<open>\<^verbatim>\<open>a / b\<close> on finite operands.\<close>

definition fdiv :: "real \<Rightarrow> real \<Rightarrow> float64" where
  "fdiv a b = (if b = 0 then NonFinite else Finite (a / b))"

text \<open>\<^verbatim>\<open>q + b\<close> where \<open>q\<close> is a quotient and \<open>b\<close> is finite: an infinity or a NaN
  plus a finite value is an infinity or a NaN.\<close>

fun fadd :: "float64 \<Rightarrow> real \<Rightarrow> float64" where
  "fadd (Finite a) b = Finite (a + b)"
| "fadd NonFinite b = NonFinite"

subsection \<open>Data\<close>

text \<open>
  Modelled from the spec: the types \<^verbatim>\<open>Vec\<close> and \<^verbatim>\<open>Rect\<close> are declared outside
  camera.go. Section 3 of the specification gives \<^verbatim>\<open>Vec\<close> the fields x, y and
  \<^verbatim>\<open>Rect\<close> the origin x, y and the size w, h, of either sign; camera.go reads and
  writes them as \<^verbatim>\<open>X\<close>, \<^verbatim>\<open>Y\<close>, \<^verbatim>\<open>W\<close>, \<^verbatim>\<open>H\<close>. The type parameter is the type of a
  coordinate: \<^typ>\<open>real\<close> for finite values, \<^typ>\<open>float64\<close> for the results of
  \<^verbatim>\<open>Unproject\<close> and its callers.
\<close>

record 'a Vec =
  X :: 'a
  Y :: 'a

record 'a Rect =
  X :: 'a
  Y :: 'a
  W :: 'a
  H :: 'a

text \<open>
  Modelled from the spec: the method \<^verbatim>\<open>Rect.Center\<close> is defined outside camera.go.
  The specification calls its result the center of the rectangle and gives the
  rectangle (0, 0, 800, 600) the center (400, 300).
\<close>

definition Rect_Center :: "real Rect \<Rightarrow> real Vec" where
  "Rect_Center r = \<lparr>Vec.X = Rect.X r + W r / 2, Y = Rect.Y r + H r / 2\<rparr>"

text \<open>
  Modelled from the spec: the interface \<^verbatim>\<open>VideoOutput\<close> is declared outside camera.go.
  Section 6 of the specification lists its six methods, and camera.go calls each of
  them. The output is stateful (it is drawn on, and it may be resized), so its state
  \<open>'s\<close> is passed explicitly: \<^verbatim>\<open>OutputRect\<close> reads the state, a drawing method returns
  the new state. Colors and pictures are opaque.
\<close>

record ('s, 'color, 'pic) VideoOutput =
  OutputRect :: "'s \<Rightarrow> real Rect"
  DrawPoint :: "real Vec \<Rightarrow> 'color \<Rightarrow> 's \<Rightarrow> 's"
  DrawLine :: "real Vec \<Rightarrow> real Vec \<Rightarrow> real \<Rightarrow> 'color \<Rightarrow> 's \<Rightarrow> 's"
  DrawPolygon :: "real Vec list \<Rightarrow> real \<Rightarrow> 'color \<Rightarrow> 's \<Rightarrow> 's"
  DrawRect :: "real Rect \<Rightarrow> real \<Rightarrow> 'color \<Rightarrow> 's \<Rightarrow> 's"
  DrawPicture :: "real Rect \<Rightarrow> 'pic \<Rightarrow> 's \<Rightarrow> 's"

text \<open>\<^verbatim>\<open>type Camera struct { Center Vec; Zoom Vec; VideoOutput }\<close>\<close>

record ('s, 'color, 'pic) Camera =
  Center :: "real Vec"
  Zoom :: "real Vec"
  VideoOutput :: "('s, 'color, 'pic) VideoOutput"

subsection \<open>Points\<close>

text \<open>Every method of the camera takes the current state \<open>s\<close> of its output.\<close>

definition Project :: "('s, 'color, 'pic) Camera \<Rightarrow> 's \<Rightarrow> real \<Rightarrow> real \<Rightarrow> real \<times> real" where
  "Project c s x y =
     (let displayCenter = Rect_Center (VideoOutput.OutputRect (VideoOutput c) s)
      in ((x - Vec.X (Center c)) * Vec.X (Zoom c) + Vec.X displayCenter,
          (y - Vec.Y (Center c)) * Vec.Y (Zoom c) + Vec.Y displayCenter))"

definition Unproject :: "('s, 'color, 'pic) Camera \<Rightarrow> 's \<Rightarrow> real \<Rightarrow> real \<Rightarrow> float64 \<times> float64" where
  "Unproject c s x y =
     (let displayCenter = Rect_Center (VideoOutput.OutputRect (VideoOutput c) s)
      in (fadd (fdiv (x - Vec.X displayCenter) (Vec.X (Zoom c))) (Vec.X (Center c)),
          fadd (fdiv (y - Vec.Y displayCenter) (Vec.Y (Zoom c))) (Vec.Y (Center c))))"

definition ProjectVec :: "('s, 'color, 'pic) Camera \<Rightarrow> 's \<Rightarrow> real Vec \<Rightarrow> real Vec" where
  "ProjectVec c s u =
     (case Project c s (Vec.X u) (Vec.Y u) of (vx, vy) \<Rightarrow> \<lparr>Vec.X = vx, Y = vy\<rparr>)"

definition UnprojectVec :: "('s, 'color, 'pic) Camera \<Rightarrow> 's \<Rightarrow> real Vec \<Rightarrow> float64 Vec" where
  "UnprojectVec c s u =
     (case Unproject c s (Vec.X u) (Vec.Y u) of (vx, vy) \<Rightarrow> \<lparr>Vec.X = vx, Y = vy\<rparr>)"

subsection \<open>Rectangles\<close>

text \<open>The two \<^verbatim>\<open>if\<close> statements that ProjectRect and UnprojectRect share: each
  rewrites its own pair of fields of the argument \<^verbatim>\<open>r1\<close>.\<close>

definition flipX :: "real \<Rightarrow> real Rect \<Rightarrow> real Rect" where
  "flipX zx r1 =
     (if zx < 0 then r1\<lparr>Rect.X := Rect.X r1 + W r1, W := W r1 * (- 1)\<rparr> else r1)"

definition flipY :: "real \<Rightarrow> real Rect \<Rightarrow> real Rect" where
  "flipY zy r1 =
     (if zy < 0 then r1\<lparr>Rect.Y := Rect.Y r1 + H r1, H := H r1 * (- 1)\<rparr> else r1)"

definition ProjectRect :: "('s, 'color, 'pic) Camera \<Rightarrow> 's \<Rightarrow> real Rect \<Rightarrow> real Rect" where
  "ProjectRect c s r =
     (let r1 = flipY (Vec.Y (Zoom c)) (flipX (Vec.X (Zoom c)) r)
      in case Project c s (Rect.X r1) (Rect.Y r1) of (px, py) \<Rightarrow>
           \<lparr>Rect.X = px, Y = py,
            W = W r1 * Vec.X (Zoom c), H = H r1 * Vec.Y (Zoom c)\<rparr>)"

definition UnprojectRect :: "('s, 'color, 'pic) Camera \<Rightarrow> 's \<Rightarrow> real Rect \<Rightarrow> float64 Rect" where
  "UnprojectRect c s r =
     (let r1 = flipY (Vec.Y (Zoom c)) (flipX (Vec.X (Zoom c)) r)
      in case Unproject c s (Rect.X r1) (Rect.Y r1) of (ux, uy) \<Rightarrow>
           \<lparr>Rect.X = ux, Y = uy,
            W = fdiv (W r1) (Vec.X (Zoom c)), H = fdiv (H r1) (Vec.Y (Zoom c))\<rparr>)"

definition OutputRect :: "('s, 'color, 'pic) Camera \<Rightarrow> 's \<Rightarrow> float64 Rect" where
  "OutputRect c s = UnprojectRect c s (VideoOutput.OutputRect (VideoOutput c) s)"

subsection \<open>Drawing\<close>

definition DrawPoint :: "('s, 'color, 'pic) Camera \<Rightarrow> real Vec \<Rightarrow> 'color \<Rightarrow> 's \<Rightarrow> 's" where
  "DrawPoint c point color s =
     VideoOutput.DrawPoint (VideoOutput c) (ProjectVec c s point) color s"

definition DrawLine ::
  "('s, 'color, 'pic) Camera \<Rightarrow> real Vec \<Rightarrow> real Vec \<Rightarrow> real \<Rightarrow> 'color \<Rightarrow> 's \<Rightarrow> 's" where
  "DrawLine c a b thickness color s =
     VideoOutput.DrawLine (VideoOutput c) (ProjectVec c s a) (ProjectVec c s b) thickness color s"

text \<open>
  \<^verbatim>\<open>for i := range points { points[i] = c.ProjectVec(points[i]) }\<close>: the indices
  \<open>0, ..., len(points) - 1\<close> in turn, each step overwriting one element of the slice.
  The slice belongs to the caller, so DrawPolygon returns it next to the new state.
\<close>

definition projectAll :: "('s, 'color, 'pic) Camera \<Rightarrow> 's \<Rightarrow> real Vec list \<Rightarrow> real Vec list" where
  "projectAll c s points =
     foldl (\<lambda>ps i. ps[i := ProjectVec c s (ps ! i)]) points [0..<length points]"

definition DrawPolygon ::
  "('s, 'color, 'pic) Camera \<Rightarrow> real Vec list \<Rightarrow> real \<Rightarrow> 'color \<Rightarrow> 's \<Rightarrow> real Vec list \<times> 's" where
  "DrawPolygon c points thickness color s =
     (let points' = projectAll c s points
      in (points', VideoOutput.DrawPolygon (VideoOutput c) points' thickness color s))"

definition DrawRect :: "('s, 'color, 'pic) Camera \<Rightarrow> real Rect \<Rightarrow> real \<Rightarrow> 'color \<Rightarrow> 's \<Rightarrow> 's" where
  "DrawRect c rect thickness color s =
     VideoOutput.DrawRect (VideoOutput c) (ProjectRect c s rect) thickness color s"

definition DrawPicture :: "('s, 'color, 'pic) Camera \<Rightarrow> real Rect \<Rightarrow> 'pic \<Rightarrow> 's \<Rightarrow> 's" where
  "DrawPicture c rect pic s =
     VideoOutput.DrawPicture (VideoOutput c) (ProjectRect c s rect) pic s"

subsection \<open>A video output for the scenarios\<close>

text \<open>
  An output whose state is its current rectangle and the list of polygons drawn on it
  so far, each with its thickness and color; the other drawing methods leave it as it
  is. The scenarios of the specification run on it.
\<close>

type_synonym canvas = "real Rect \<times> (real Vec list \<times> real \<times> nat) list"

definition canvasOutput :: "(canvas, nat, unit) VideoOutput" where
  "canvasOutput =
     \<lparr>VideoOutput.OutputRect = fst,
      VideoOutput.DrawPoint = (\<lambda>p col s. s),
      VideoOutput.DrawLine = (\<lambda>a b t col s. s),
      VideoOutput.DrawPolygon = (\<lambda>ps t col s. (fst s, snd s @ [(ps, t, col)])),
      VideoOutput.DrawRect = (\<lambda>r t col s. s),
      VideoOutput.DrawPicture = (\<lambda>r pic s. s)\<rparr>"

definition camera :: "real \<times> real \<Rightarrow> real \<times> real \<Rightarrow> (canvas, nat, unit) Camera" where
  "camera ce zo =
     \<lparr>Center = \<lparr>Vec.X = fst ce, Y = snd ce\<rparr>,
      Zoom = \<lparr>Vec.X = fst zo, Y = snd zo\<rparr>,
      VideoOutput = canvasOutput\<rparr>"

definition canvas :: "real \<Rightarrow> real \<Rightarrow> real \<Rightarrow> real \<Rightarrow> canvas" where
  "canvas x y w h = (\<lparr>Rect.X = x, Y = y, W = w, H = h\<rparr>, [])"

subsection \<open>Notions of the specification\<close>

text \<open>
  The canonical form of a rectangle, with which section 8 of the specification compares
  covered regions: the same region, with its lower corner as origin and a width and
  height that are not negative.
\<close>

definition canonical :: "real Rect \<Rightarrow> real Rect" where
  "canonical r =
     \<lparr>Rect.X = min (Rect.X r) (Rect.X r + W r), Y = min (Rect.Y r) (Rect.Y r + H r),
      W = \<bar>W r\<bar>, H = \<bar>H r\<bar>\<rparr>"

text \<open>A rectangle of finite values, as a result of UnprojectRect.\<close>

definition finiteRect :: "real Rect \<Rightarrow> float64 Rect" where
  "finiteRect r =
     \<lparr>Rect.X = Finite (Rect.X r), Y = Finite (Rect.Y r), W = Finite (W r), H = Finite (H r)\<rparr>"

section \<open>Properties\<close>

lemma Rect_Center_canvas [simp]:
  "Rect_Center (VideoOutput.OutputRect (VideoOutput (camera ce zo)) (canvas x y w h)) =
     \<lparr>Vec.X = x + w / 2, Y = y + h / 2\<rparr>"
  by (simp add: Rect_Center_def camera_def canvasOutput_def canvas_def)

lemma camera_simps [simp]:
  "Center (camera ce zo) = \<lparr>Vec.X = fst ce, Y = snd ce\<rparr>"
  "Zoom (camera ce zo) = \<lparr>Vec.X = fst zo, Y = snd zo\<rparr>"
  by (simp_all add: camera_def)

subsection \<open>Helper facts\<close>

lemma flipX_simps:
  "Rect.X (flipX zx r) = (if zx < 0 then Rect.X r + W r else Rect.X r)"
  "W (flipX zx r) = (if zx < 0 then - W r else W r)"
  "Rect.Y (flipX zx r) = Rect.Y r"
  "H (flipX zx r) = H r"
  by (simp_all add: flipX_def)

lemma flipY_simps:
  "Rect.Y (flipY zy r) = (if zy < 0 then Rect.Y r + H r else Rect.Y r)"
  "H (flipY zy r) = (if zy < 0 then - H r else H r)"
  "Rect.X (flipY zy r) = Rect.X r"
  "W (flipY zy r) = W r"
  by (simp_all add: flipY_def)

lemma fadd_NonFinite_iff: "(fadd q b = NonFinite) = (q = NonFinite)"
  by (cases q) simp_all

lemma fdiv_NonFinite_iff: "(fdiv a b = NonFinite) = (b = 0)"
  by (simp add: fdiv_def)

lemma Unproject_NonFinite_iff:
  "(fst (Unproject c s x y) = NonFinite) = (Vec.X (Zoom c) = 0)"
  "(snd (Unproject c s x y) = NonFinite) = (Vec.Y (Zoom c) = 0)"
  by (simp_all add: Unproject_def Let_def fadd_NonFinite_iff fdiv_NonFinite_iff)

lemma UnprojectVec_NonFinite_iff:
  "(Vec.X (UnprojectVec c s u) = NonFinite) = (Vec.X (Zoom c) = 0)"
  "(Vec.Y (UnprojectVec c s u) = NonFinite) = (Vec.Y (Zoom c) = 0)"
  by (simp_all add: UnprojectVec_def case_prod_beta Unproject_NonFinite_iff)

lemma UnprojectRect_NonFinite_iff:
  "(Rect.X (UnprojectRect c s r) = NonFinite) = (Vec.X (Zoom c) = 0)"
  "(Rect.Y (UnprojectRect c s r) = NonFinite) = (Vec.Y (Zoom c) = 0)"
  "(W (UnprojectRect c s r) = NonFinite) = (Vec.X (Zoom c) = 0)"
  "(H (UnprojectRect c s r) = NonFinite) = (Vec.Y (Zoom c) = 0)"
  by (simp_all add: UnprojectRect_def Let_def case_prod_beta fdiv_NonFinite_iff
      Unproject_NonFinite_iff)

lemma UnprojectRect_finite:
  "Vec.X (Zoom c) \<noteq> 0 \<Longrightarrow> Vec.Y (Zoom c) \<noteq> 0 \<Longrightarrow>
   UnprojectRect c s r =
     \<lparr>Rect.X = Finite (((if Vec.X (Zoom c) < 0 then Rect.X r + W r else Rect.X r)
                  - Vec.X (Rect_Center (VideoOutput.OutputRect (VideoOutput c) s)))
                  / Vec.X (Zoom c) + Vec.X (Center c)),
      Y = Finite (((if Vec.Y (Zoom c) < 0 then Rect.Y r + H r else Rect.Y r)
                  - Vec.Y (Rect_Center (VideoOutput.OutputRect (VideoOutput c) s)))
                  / Vec.Y (Zoom c) + Vec.Y (Center c)),
      W = Finite ((if Vec.X (Zoom c) < 0 then - W r else W r) / Vec.X (Zoom c)),
      H = Finite ((if Vec.Y (Zoom c) < 0 then - H r else H r) / Vec.Y (Zoom c))\<rparr>"
  by (simp add: UnprojectRect_def Unproject_def Let_def fdiv_def flipX_simps flipY_simps)

lemma ProjectRect_closed:
  "ProjectRect c s r =
     \<lparr>Rect.X = ((if Vec.X (Zoom c) < 0 then Rect.X r + W r else Rect.X r) - Vec.X (Center c))
                 * Vec.X (Zoom c) + Vec.X (Rect_Center (VideoOutput.OutputRect (VideoOutput c) s)),
      Y = ((if Vec.Y (Zoom c) < 0 then Rect.Y r + H r else Rect.Y r) - Vec.Y (Center c))
                 * Vec.Y (Zoom c) + Vec.Y (Rect_Center (VideoOutput.OutputRect (VideoOutput c) s)),
      W = (if Vec.X (Zoom c) < 0 then - W r else W r) * Vec.X (Zoom c),
      H = (if Vec.Y (Zoom c) < 0 then - H r else H r) * Vec.Y (Zoom c)\<rparr>"
  by (simp add: ProjectRect_def Project_def Let_def flipX_simps flipY_simps)

lemma ProjectRect_fields:
  "Rect.X (ProjectRect c s r) =
     fst (Project c s (if Vec.X (Zoom c) < 0 then Rect.X r + W r else Rect.X r)
                      (if Vec.Y (Zoom c) < 0 then Rect.Y r + H r else Rect.Y r))"
  "Rect.Y (ProjectRect c s r) =
     snd (Project c s (if Vec.X (Zoom c) < 0 then Rect.X r + W r else Rect.X r)
                      (if Vec.Y (Zoom c) < 0 then Rect.Y r + H r else Rect.Y r))"
  "W (ProjectRect c s r) = (if Vec.X (Zoom c) < 0 then - W r else W r) * Vec.X (Zoom c)"
  "H (ProjectRect c s r) = (if Vec.Y (Zoom c) < 0 then - H r else H r) * Vec.Y (Zoom c)"
  by (simp_all add: ProjectRect_def Let_def flipX_simps flipY_simps split: prod.split)

lemma canonical_flip_fields:
  "W (canonical (ProjectRect (c\<lparr>Zoom := \<lparr>Vec.X = - 1, Y = - 1\<rparr>\<rparr>) s r)) = \<bar>W r\<bar>"
  "H (canonical (ProjectRect (c\<lparr>Zoom := \<lparr>Vec.X = - 1, Y = - 1\<rparr>\<rparr>) s r)) = \<bar>H r\<bar>"
  "Rect.X (canonical (ProjectRect (c\<lparr>Zoom := \<lparr>Vec.X = - 1, Y = - 1\<rparr>\<rparr>) s r))
     = Vec.X (Rect_Center (VideoOutput.OutputRect (VideoOutput c) s))
       + Vec.X (Center c) - max (Rect.X r) (Rect.X r + W r)"
  "Rect.Y (canonical (ProjectRect (c\<lparr>Zoom := \<lparr>Vec.X = - 1, Y = - 1\<rparr>\<rparr>) s r))
     = Vec.Y (Rect_Center (VideoOutput.OutputRect (VideoOutput c) s))
       + Vec.Y (Center c) - max (Rect.Y r) (Rect.Y r + H r)"
  by (simp_all add: canonical_def ProjectRect_def Project_def Let_def flipX_def flipY_def
      min_def max_def)

lemma canonical_plain_fields:
  "W (canonical (ProjectRect (c\<lparr>Zoom := \<lparr>Vec.X = 1, Y = 1\<rparr>\<rparr>) s r)) = \<bar>W r\<bar>"
  "H (canonical (ProjectRect (c\<lparr>Zoom := \<lparr>Vec.X = 1, Y = 1\<rparr>\<rparr>) s r)) = \<bar>H r\<bar>"
  "Rect.X (canonical (ProjectRect (c\<lparr>Zoom := \<lparr>Vec.X = 1, Y = 1\<rparr>\<rparr>) s r))
     = Vec.X (Rect_Center (VideoOutput.OutputRect (VideoOutput c) s))
       - Vec.X (Center c) + min (Rect.X r) (Rect.X r + W r)"
  "Rect.Y (canonical (ProjectRect (c\<lparr>Zoom := \<lparr>Vec.X = 1, Y = 1\<rparr>\<rparr>) s r))
     = Vec.Y (Rect_Center (VideoOutput.OutputRect (VideoOutput c) s))
       - Vec.Y (Center c) + min (Rect.Y r) (Rect.Y r + H r)"
  by (simp_all add: canonical_def ProjectRect_def Project_def Let_def flipX_def flipY_def
      min_def max_def)

lemma canonical_eq_iff:
  "(canonical a = canonical b) =
     (Rect.X (canonical a) = Rect.X (canonical b) \<and> Rect.Y (canonical a) = Rect.Y (canonical b)
      \<and> W (canonical a) = W (canonical b) \<and> H (canonical a) = H (canonical b))"
  by (auto simp add: canonical_def)

lemma Rect_Center_eq_iff:
  "(Rect_Center r = (v :: real Vec)) =
     (Rect.X r + W r / 2 = Vec.X v \<and> Rect.Y r + H r / 2 = Vec.Y v)"
  by (cases v) (auto simp add: Rect_Center_def)

lemma projectAll_prefix:
  "k \<le> length ps \<Longrightarrow>
   foldl (\<lambda>ps i. ps[i := f (ps ! i)]) ps [0..<k] = map f (take k ps) @ drop k ps"
proof (induction k)
  case 0
  show ?case by simp
next
  case (Suc k)
  then have k: "k < length ps" by simp
  have "foldl (\<lambda>ps i. ps[i := f (ps ! i)]) ps [0..<Suc k]
      = (map f (take k ps) @ drop k ps)[k := f ((map f (take k ps) @ drop k ps) ! k)]"
    using Suc by simp
  also have "\<dots> = map f (take k ps) @ (drop k ps)[0 := f (ps ! k)]"
    using k by (simp add: list_update_append nth_append)
  also have "\<dots> = map f (take k ps) @ f (ps ! k) # drop (Suc k) ps"
    using k by (simp add: Cons_nth_drop_Suc [symmetric])
  also have "\<dots> = map f (take (Suc k) ps) @ drop (Suc k) ps"
    using k by (simp add: take_Suc_conv_app_nth)
  finally show ?case .
qed

lemma projectAll_map: "projectAll c s points = map (ProjectVec c s) points"
  by (simp add: projectAll_def projectAll_prefix)

lemma ProjectRect_UnprojectRect:
  "Vec.X (Zoom c) \<noteq> 0 \<Longrightarrow> Vec.Y (Zoom c) \<noteq> 0 \<Longrightarrow>
   \<exists>g. UnprojectRect c s r = finiteRect g \<and> ProjectRect c s g = r"
  apply (rule exI [of _ "\<lparr>Rect.X = (((if Vec.X (Zoom c) < 0 then Rect.X r + W r else Rect.X r)
                  - Vec.X (Rect_Center (VideoOutput.OutputRect (VideoOutput c) s)))
                  / Vec.X (Zoom c) + Vec.X (Center c)),
      Y = (((if Vec.Y (Zoom c) < 0 then Rect.Y r + H r else Rect.Y r)
                  - Vec.Y (Rect_Center (VideoOutput.OutputRect (VideoOutput c) s)))
                  / Vec.Y (Zoom c) + Vec.Y (Center c)),
      W = ((if Vec.X (Zoom c) < 0 then - W r else W r) / Vec.X (Zoom c)),
      H = ((if Vec.Y (Zoom c) < 0 then - H r else H r) / Vec.Y (Zoom c))\<rparr>"])
  apply (simp add: UnprojectRect_finite ProjectRect_closed finiteRect_def field_simps)
  done

subsection \<open>The claims\<close>

text \<open>
  C1: Project returns \<open>((x - center.x) * zoom.x + oc.x, (y - center.y) * zoom.y + oc.y)\<close>
  where \<open>oc\<close> is the center of the rectangle that the output reports in its current
  state, for every point, camera and state of the output. With the rectangle
  (0, 0, 800, 600), center (0, 0) and zoom (2, 2), Project(10, 5) is (420, 310).
\<close>

theorem Project_formula:
  "Project c s x y =
     ((x - Vec.X (Center c)) * Vec.X (Zoom c)
        + Vec.X (Rect_Center (VideoOutput.OutputRect (VideoOutput c) s)),
      (y - Vec.Y (Center c)) * Vec.Y (Zoom c)
        + Vec.Y (Rect_Center (VideoOutput.OutputRect (VideoOutput c) s)))
   \<and> (VideoOutput.OutputRect (VideoOutput c) s = \<lparr>Rect.X = 0, Y = 0, W = 800, H = 600\<rparr>
        \<and> Center c = \<lparr>Vec.X = 0, Y = 0\<rparr> \<and> Zoom c = \<lparr>Vec.X = 2, Y = 2\<rparr>
      \<longrightarrow> Project c s 10 5 = (420, 310))"
  by (simp add: Project_def Rect_Center_def)

theorem Project_formula_witness:
  "VideoOutput.OutputRect (VideoOutput (camera (0, 0) (2, 2))) (canvas 0 0 800 600) =
     \<lparr>Rect.X = 0, Y = 0, W = 800, H = 600\<rparr>
   \<and> Project (camera (0, 0) (2, 2)) (canvas 0 0 800 600) 10 5 = (420, 310)
   \<and> Project (camera (0, 0) (2, 2)) (canvas 0 0 1024 768) 10 5 = (532, 394)"
  using Project_formula [of "camera (0, 0) (2, 2)" "canvas 0 0 800 600" 10 5]
    Project_formula [of "camera (0, 0) (2, 2)" "canvas 0 0 1024 768" 10 5]
  by (simp add: camera_def canvasOutput_def canvas_def Rect_Center_def)

text \<open>
  C2: when both components of the zoom are not zero, Unproject returns
  \<open>((x - oc.x) / zoom.x + center.x, (y - oc.y) / zoom.y + center.y)\<close>, both finite,
  where \<open>oc\<close> is the center of the rectangle of the output in its current state. With
  the rectangle (0, 0, 800, 600), center (0, 0) and zoom (2, 2), Unproject(420, 310) is
  (10, 5).
\<close>

theorem Unproject_formula:
  "(Vec.X (Zoom c) \<noteq> 0 \<and> Vec.Y (Zoom c) \<noteq> 0 \<longrightarrow>
      Unproject c s x y =
        (Finite ((x - Vec.X (Rect_Center (VideoOutput.OutputRect (VideoOutput c) s)))
                   / Vec.X (Zoom c) + Vec.X (Center c)),
         Finite ((y - Vec.Y (Rect_Center (VideoOutput.OutputRect (VideoOutput c) s)))
                   / Vec.Y (Zoom c) + Vec.Y (Center c))))
   \<and> (VideoOutput.OutputRect (VideoOutput c) s = \<lparr>Rect.X = 0, Y = 0, W = 800, H = 600\<rparr>
        \<and> Center c = \<lparr>Vec.X = 0, Y = 0\<rparr> \<and> Zoom c = \<lparr>Vec.X = 2, Y = 2\<rparr>
      \<longrightarrow> Unproject c s 420 310 = (Finite 10, Finite 5))"
  by (simp add: Unproject_def fdiv_def Let_def Rect_Center_def)

theorem Unproject_formula_witness:
  "Vec.X (Zoom (camera (0, 0) (2, 2))) \<noteq> 0 \<and> Vec.Y (Zoom (camera (0, 0) (2, 2))) \<noteq> 0
   \<and> VideoOutput.OutputRect (VideoOutput (camera (0, 0) (2, 2))) (canvas 0 0 800 600) =
       \<lparr>Rect.X = 0, Y = 0, W = 800, H = 600\<rparr>
   \<and> Unproject (camera (0, 0) (2, 2)) (canvas 0 0 800 600) 420 310 = (Finite 10, Finite 5)
   \<and> Unproject (camera (1, 1) (- 4, 8)) (canvas 0 0 800 600) 420 310 = (Finite (- 4), Finite (9 / 4))"
  using Unproject_formula [of "camera (0, 0) (2, 2)" "canvas 0 0 800 600" 420 310]
    Unproject_formula [of "camera (1, 1) (- 4, 8)" "canvas 0 0 800 600" 420 310]
  by (simp add: camera_def canvasOutput_def canvas_def Rect_Center_def)

text \<open>
  C3: when both components of the zoom are not zero, Unproject after Project returns
  the point it started from, for every point, camera and state of the output; so does
  UnprojectVec after ProjectVec.
\<close>

theorem Unproject_Project:
  "Vec.X (Zoom c) \<noteq> 0 \<Longrightarrow> Vec.Y (Zoom c) \<noteq> 0 \<Longrightarrow>
   (case Project c s x y of (u, v) \<Rightarrow> Unproject c s u v) = (Finite x, Finite y)
   \<and> UnprojectVec c s (ProjectVec c s p) = \<lparr>Vec.X = Finite (Vec.X p), Y = Finite (Vec.Y p)\<rparr>"
  by (simp add: Unproject_def Project_def fdiv_def UnprojectVec_def ProjectVec_def Let_def)

theorem Unproject_Project_witness:
  "Vec.X (Zoom (camera (3, - 4) (- 2, 1 / 2))) \<noteq> 0
   \<and> Vec.Y (Zoom (camera (3, - 4) (- 2, 1 / 2))) \<noteq> 0
   \<and> Project (camera (3, - 4) (- 2, 1 / 2)) (canvas 0 0 800 600) 10 5 = (386, 609 / 2)
   \<and> Unproject (camera (3, - 4) (- 2, 1 / 2)) (canvas 0 0 800 600) 386 (609 / 2)
       = (Finite 10, Finite 5)"
  using Unproject_Project [of "camera (3, - 4) (- 2, 1 / 2)" "canvas 0 0 800 600" 10 5]
  by (simp add: Project_def)

text \<open>
  C4: ProjectRect moves the origin to \<open>x + w\<close> and negates the width when zoom.x is
  negative, does the same to \<open>y\<close> and the height when zoom.y is negative, projects the
  origin it then has, and multiplies the width and height it then has by zoom.x and
  zoom.y. A width or height that is not negative stays so, whatever the sign of the
  zoom. With zoom (-1, 1) the rectangle (0, 0, 10, 10) is re-anchored to x = 10,
  w = -10, its origin (10, 0) is projected, and the final width is 10.
\<close>

theorem ProjectRect_algorithm:
  "ProjectRect c s r =
     (case Project c s (if Vec.X (Zoom c) < 0 then Rect.X r + W r else Rect.X r)
                       (if Vec.Y (Zoom c) < 0 then Rect.Y r + H r else Rect.Y r)
      of (px, py) \<Rightarrow>
        \<lparr>Rect.X = px, Y = py,
         W = (if Vec.X (Zoom c) < 0 then - W r else W r) * Vec.X (Zoom c),
         H = (if Vec.Y (Zoom c) < 0 then - H r else H r) * Vec.Y (Zoom c)\<rparr>)
   \<and> (0 \<le> W r \<longrightarrow> 0 \<le> W (ProjectRect c s r))
   \<and> (0 \<le> H r \<longrightarrow> 0 \<le> H (ProjectRect c s r))
   \<and> (Zoom c = \<lparr>Vec.X = - 1, Y = 1\<rparr> \<longrightarrow>
        flipY (Vec.Y (Zoom c)) (flipX (Vec.X (Zoom c)) \<lparr>Rect.X = 0, Y = 0, W = 10, H = 10\<rparr>)
          = \<lparr>Rect.X = 10, Y = 0, W = - 10, H = 10\<rparr>
        \<and> ProjectRect c s \<lparr>Rect.X = 0, Y = 0, W = 10, H = 10\<rparr>
          = (case Project c s 10 0 of (px, py) \<Rightarrow> \<lparr>Rect.X = px, Y = py, W = 10, H = 10\<rparr>))"
proof (intro conjI impI)
  show "ProjectRect c s r =
     (case Project c s (if Vec.X (Zoom c) < 0 then Rect.X r + W r else Rect.X r)
                       (if Vec.Y (Zoom c) < 0 then Rect.Y r + H r else Rect.Y r)
      of (px, py) \<Rightarrow>
        \<lparr>Rect.X = px, Y = py,
         W = (if Vec.X (Zoom c) < 0 then - W r else W r) * Vec.X (Zoom c),
         H = (if Vec.Y (Zoom c) < 0 then - H r else H r) * Vec.Y (Zoom c)\<rparr>)"
    by (simp add: ProjectRect_def Let_def flipX_simps flipY_simps)
next
  assume "0 \<le> W r"
  then show "0 \<le> W (ProjectRect c s r)"
    by (simp add: ProjectRect_fields mult_nonneg_nonpos less_imp_le)
next
  assume "0 \<le> H r"
  then show "0 \<le> H (ProjectRect c s r)"
    by (simp add: ProjectRect_fields mult_nonneg_nonpos less_imp_le)
next
  assume "Zoom c = \<lparr>Vec.X = - 1, Y = 1\<rparr>"
  then show "flipY (Vec.Y (Zoom c)) (flipX (Vec.X (Zoom c)) \<lparr>Rect.X = 0, Y = 0, W = 10, H = 10\<rparr>)
          = \<lparr>Rect.X = 10, Y = 0, W = - 10, H = 10\<rparr>"
    by (simp add: flipX_def flipY_def)
next
  assume "Zoom c = \<lparr>Vec.X = - 1, Y = 1\<rparr>"
  then show "ProjectRect c s \<lparr>Rect.X = 0, Y = 0, W = 10, H = 10\<rparr>
          = (case Project c s 10 0 of (px, py) \<Rightarrow> \<lparr>Rect.X = px, Y = py, W = 10, H = 10\<rparr>)"
    by (simp add: ProjectRect_def Let_def flipX_def flipY_def)
qed

theorem ProjectRect_algorithm_witness:
  "Zoom (camera (0, 0) (- 1, 1)) = \<lparr>Vec.X = - 1, Y = 1\<rparr>
   \<and> ProjectRect (camera (0, 0) (- 1, 1)) (canvas 0 0 800 600) \<lparr>Rect.X = 0, Y = 0, W = 10, H = 10\<rparr>
       = \<lparr>Rect.X = 390, Y = 300, W = 10, H = 10\<rparr>
   \<and> (0::real) \<le> 10
   \<and> 0 \<le> W (ProjectRect (camera (0, 0) (- 1, 1)) (canvas 0 0 800 600) \<lparr>Rect.X = 0, Y = 0, W = 10, H = 10\<rparr>)
   \<and> 0 \<le> H (ProjectRect (camera (0, 0) (- 1, 1)) (canvas 0 0 800 600) \<lparr>Rect.X = 0, Y = 0, W = 10, H = 10\<rparr>)"
  using ProjectRect_algorithm [of "camera (0, 0) (- 1, 1)" "canvas 0 0 800 600"
      "\<lparr>Rect.X = 0, Y = 0, W = 10, H = 10\<rparr>"]
  by (simp add: Project_def)

text \<open>
  C5, as claimed: under zoom (-1, -1) and under zoom (1, 1) ProjectRect gives rectangles
  that cover the same region of display space once put in canonical form. It fails:
  with center (0, 0) on the output (0, 0, 800, 600), the rectangle (1, 1, 2, 2) goes
  to the region with origin (397, 297) under zoom (-1, -1) and to the region with
  origin (401, 301) under zoom (1, 1).
\<close>

theorem ProjectRect_flip_counterexample:
  "canonical (ProjectRect (camera (0, 0) (- 1, - 1)) (canvas 0 0 800 600)
                \<lparr>Rect.X = 1, Y = 1, W = 2, H = 2\<rparr>)
     = \<lparr>Rect.X = 397, Y = 297, W = 2, H = 2\<rparr>
   \<and> canonical (ProjectRect (camera (0, 0) (1, 1)) (canvas 0 0 800 600)
                \<lparr>Rect.X = 1, Y = 1, W = 2, H = 2\<rparr>)
     = \<lparr>Rect.X = 401, Y = 301, W = 2, H = 2\<rparr>
   \<and> canonical (ProjectRect (camera (0, 0) (- 1, - 1)) (canvas 0 0 800 600)
                \<lparr>Rect.X = 1, Y = 1, W = 2, H = 2\<rparr>)
     \<noteq> canonical (ProjectRect (camera (0, 0) (1, 1)) (canvas 0 0 800 600)
                \<lparr>Rect.X = 1, Y = 1, W = 2, H = 2\<rparr>)"
  by (simp add: canonical_def ProjectRect_def Project_def Let_def flipX_def flipY_def)

text \<open>
  C5, amended: in canonical form the two rectangles have the same width and the same
  height, and the one under zoom (-1, -1) is the mirror image of the one under zoom
  (1, 1) through the center \<open>oc\<close> of the output: its extent on each axis is
  \<open>2 * oc\<close> minus the extent of the other. The two cover the same region exactly when
  the center of the base rectangle is the center of the camera.
\<close>

theorem ProjectRect_flip_mirror:
  "W (canonical (ProjectRect (c\<lparr>Zoom := \<lparr>Vec.X = - 1, Y = - 1\<rparr>\<rparr>) s r))
     = W (canonical (ProjectRect (c\<lparr>Zoom := \<lparr>Vec.X = 1, Y = 1\<rparr>\<rparr>) s r))
   \<and> H (canonical (ProjectRect (c\<lparr>Zoom := \<lparr>Vec.X = - 1, Y = - 1\<rparr>\<rparr>) s r))
     = H (canonical (ProjectRect (c\<lparr>Zoom := \<lparr>Vec.X = 1, Y = 1\<rparr>\<rparr>) s r))
   \<and> Rect.X (canonical (ProjectRect (c\<lparr>Zoom := \<lparr>Vec.X = - 1, Y = - 1\<rparr>\<rparr>) s r))
     = 2 * Vec.X (Rect_Center (VideoOutput.OutputRect (VideoOutput c) s))
       - (Rect.X (canonical (ProjectRect (c\<lparr>Zoom := \<lparr>Vec.X = 1, Y = 1\<rparr>\<rparr>) s r))
          + W (canonical (ProjectRect (c\<lparr>Zoom := \<lparr>Vec.X = 1, Y = 1\<rparr>\<rparr>) s r)))
   \<and> Rect.Y (canonical (ProjectRect (c\<lparr>Zoom := \<lparr>Vec.X = - 1, Y = - 1\<rparr>\<rparr>) s r))
     = 2 * Vec.Y (Rect_Center (VideoOutput.OutputRect (VideoOutput c) s))
       - (Rect.Y (canonical (ProjectRect (c\<lparr>Zoom := \<lparr>Vec.X = 1, Y = 1\<rparr>\<rparr>) s r))
          + H (canonical (ProjectRect (c\<lparr>Zoom := \<lparr>Vec.X = 1, Y = 1\<rparr>\<rparr>) s r)))
   \<and> (canonical (ProjectRect (c\<lparr>Zoom := \<lparr>Vec.X = - 1, Y = - 1\<rparr>\<rparr>) s r)
        = canonical (ProjectRect (c\<lparr>Zoom := \<lparr>Vec.X = 1, Y = 1\<rparr>\<rparr>) s r))
     = (Rect_Center r = Center c)"
proof (intro conjI)
  show "(canonical (ProjectRect (c\<lparr>Zoom := \<lparr>Vec.X = - 1, Y = - 1\<rparr>\<rparr>) s r)
        = canonical (ProjectRect (c\<lparr>Zoom := \<lparr>Vec.X = 1, Y = 1\<rparr>\<rparr>) s r))
     = (Rect_Center r = Center c)"
    unfolding canonical_eq_iff canonical_flip_fields canonical_plain_fields Rect_Center_eq_iff
    by (auto simp add: min_def max_def field_simps)
qed (simp_all add: canonical_flip_fields canonical_plain_fields min_def max_def abs_if)

text \<open>
  C6: the only operation of the camera that can leave the finite values is the
  division by a zoom component in Unproject, UnprojectVec and UnprojectRect. When both
  components of the zoom are not zero, no division is by zero and every component of
  their results is finite. When zoom.x is zero the x components (and the width) of
  their results are not finite, when zoom.y is zero the y components (and the height):
  the functions still return, report no error, and check or clamp nothing.
\<close>

theorem Unproject_division:
  "(Vec.X (Zoom c) \<noteq> 0 \<and> Vec.Y (Zoom c) \<noteq> 0 \<longrightarrow>
      fst (Unproject c s x y) \<noteq> NonFinite \<and> snd (Unproject c s x y) \<noteq> NonFinite
      \<and> Vec.X (UnprojectVec c s u) \<noteq> NonFinite \<and> Vec.Y (UnprojectVec c s u) \<noteq> NonFinite
      \<and> Rect.X (UnprojectRect c s r) \<noteq> NonFinite \<and> Rect.Y (UnprojectRect c s r) \<noteq> NonFinite
      \<and> W (UnprojectRect c s r) \<noteq> NonFinite \<and> H (UnprojectRect c s r) \<noteq> NonFinite)
   \<and> (Vec.X (Zoom c) = 0 \<longrightarrow>
      fst (Unproject c s x y) = NonFinite \<and> Vec.X (UnprojectVec c s u) = NonFinite
      \<and> Rect.X (UnprojectRect c s r) = NonFinite \<and> W (UnprojectRect c s r) = NonFinite)
   \<and> (Vec.Y (Zoom c) = 0 \<longrightarrow>
      snd (Unproject c s x y) = NonFinite \<and> Vec.Y (UnprojectVec c s u) = NonFinite
      \<and> Rect.Y (UnprojectRect c s r) = NonFinite \<and> H (UnprojectRect c s r) = NonFinite)"
  by (simp add: Unproject_NonFinite_iff UnprojectVec_NonFinite_iff UnprojectRect_NonFinite_iff)

theorem Unproject_division_witness:
  "Unproject (camera (1, 1) (2, 4)) (canvas 0 0 800 600) 420 310 = (Finite 11, Finite (7 / 2))
   \<and> Unproject (camera (1, 1) (0, 4)) (canvas 0 0 800 600) 420 310 = (NonFinite, Finite (7 / 2))
   \<and> Unproject (camera (1, 1) (2, 0)) (canvas 0 0 800 600) 420 310 = (Finite 11, NonFinite)
   \<and> W (UnprojectRect (camera (1, 1) (0, 4)) (canvas 0 0 800 600)
          \<lparr>Rect.X = 0, Y = 0, W = 0, H = 8\<rparr>) = NonFinite
   \<and> H (UnprojectRect (camera (1, 1) (0, 4)) (canvas 0 0 800 600)
          \<lparr>Rect.X = 0, Y = 0, W = 0, H = 8\<rparr>) = Finite 2"
  using Unproject_division [of "camera (1, 1) (2, 4)" "canvas 0 0 800 600" 420 310]
    Unproject_division [of "camera (1, 1) (0, 4)" "canvas 0 0 800 600" 420 310
      "\<lparr>Vec.X = 0, Y = 0\<rparr>" "\<lparr>Rect.X = 0, Y = 0, W = 0, H = 8\<rparr>"]
    Unproject_division [of "camera (1, 1) (2, 0)" "canvas 0 0 800 600" 420 310]
  by (simp add: Unproject_def UnprojectRect_def Let_def fdiv_def flipX_def flipY_def)

text \<open>
  C7: OutputRect of the camera is UnprojectRect applied to the rectangle that the output
  reports in its current state. When both components of the zoom are not zero it is
  that rectangle in game space: a finite rectangle that ProjectRect maps back to the
  rectangle of the output.
\<close>

theorem OutputRect_unprojects:
  "OutputRect c s = UnprojectRect c s (VideoOutput.OutputRect (VideoOutput c) s)
   \<and> (Vec.X (Zoom c) \<noteq> 0 \<and> Vec.Y (Zoom c) \<noteq> 0 \<longrightarrow>
        (\<exists>g. OutputRect c s = finiteRect g
           \<and> ProjectRect c s g = VideoOutput.OutputRect (VideoOutput c) s))"
  using ProjectRect_UnprojectRect [of c s "VideoOutput.OutputRect (VideoOutput c) s"]
  by (simp add: OutputRect_def)

theorem OutputRect_unprojects_witness:
  "Vec.X (Zoom (camera (0, 0) (2, 2))) \<noteq> 0 \<and> Vec.Y (Zoom (camera (0, 0) (2, 2))) \<noteq> 0
   \<and> OutputRect (camera (0, 0) (2, 2)) (canvas 0 0 800 600)
       = finiteRect \<lparr>Rect.X = - 200, Y = - 150, W = 400, H = 300\<rparr>
   \<and> ProjectRect (camera (0, 0) (2, 2)) (canvas 0 0 800 600)
         \<lparr>Rect.X = - 200, Y = - 150, W = 400, H = 300\<rparr>
       = \<lparr>Rect.X = 0, Y = 0, W = 800, H = 600\<rparr>"
  using OutputRect_unprojects [of "camera (0, 0) (2, 2)" "canvas 0 0 800 600"]
  by (simp add: OutputRect_def UnprojectRect_finite ProjectRect_closed finiteRect_def
      camera_def canvasOutput_def canvas_def Rect_Center_def)

text \<open>
  C8: DrawPolygon hands the output the vertices it was given, each replaced by its
  ProjectVec, as many and in the same order, with the thickness and the color it was
  given; the slice of the caller holds the same projected vertices afterwards. On the
  recording output the polygon drawn is exactly that list with that thickness and color.
\<close>

theorem DrawPolygon_forwards:
  "DrawPolygon c points thickness color s =
     (map (ProjectVec c s) points,
      VideoOutput.DrawPolygon (VideoOutput c) (map (ProjectVec c s) points) thickness color s)
   \<and> length (fst (DrawPolygon c points thickness color s)) = length points
   \<and> snd (DrawPolygon (camera ce zo) points thickness color (rect, drawn)) =
       (rect, drawn @ [(map (ProjectVec (camera ce zo) (rect, drawn)) points, thickness, color)])"
  by (simp add: DrawPolygon_def projectAll_map Let_def camera_def canvasOutput_def)

text \<open>
  C9: with zoom (1, 1) and the center of the camera at the center of the rectangle that
  the output reports in its current state, Project returns every point unchanged.
\<close>

theorem Project_identity:
  "Zoom c = \<lparr>Vec.X = 1, Y = 1\<rparr> \<Longrightarrow>
   Center c = Rect_Center (VideoOutput.OutputRect (VideoOutput c) s) \<Longrightarrow>
   Project c s x y = (x, y)"
  by (simp add: Project_def Let_def)

theorem Project_identity_witness:
  "Zoom (camera (400, 300) (1, 1)) = \<lparr>Vec.X = 1, Y = 1\<rparr>
   \<and> Center (camera (400, 300) (1, 1))
       = Rect_Center (VideoOutput.OutputRect (VideoOutput (camera (400, 300) (1, 1)))
           (canvas 0 0 800 600))
   \<and> Project (camera (400, 300) (1, 1)) (canvas 0 0 800 600) 7 (- 9) = (7, - 9)"
  using Project_identity [of "camera (400, 300) (1, 1)" "canvas 0 0 800 600" 7 "- 9"]
  by simp

text \<open>
  C10: when both components of the zoom are not zero, UnprojectRect after ProjectRect
  returns the rectangle it started from, origin and signed width and height, for every
  rectangle (also of negative width or height), camera and state of the output.
\<close>

theorem UnprojectRect_ProjectRect:
  "Vec.X (Zoom c) \<noteq> 0 \<Longrightarrow> Vec.Y (Zoom c) \<noteq> 0 \<Longrightarrow>
   UnprojectRect c s (ProjectRect c s r) = finiteRect r"
  by (simp add: UnprojectRect_finite ProjectRect_closed finiteRect_def field_simps)

theorem UnprojectRect_ProjectRect_witness:
  "Vec.X (Zoom (camera (3, - 4) (- 2, 1 / 2))) \<noteq> 0
   \<and> Vec.Y (Zoom (camera (3, - 4) (- 2, 1 / 2))) \<noteq> 0
   \<and> ProjectRect (camera (3, - 4) (- 2, 1 / 2)) (canvas 0 0 800 600)
         \<lparr>Rect.X = 1, Y = 2, W = - 6, H = 8\<rparr>
       = \<lparr>Rect.X = 416, Y = 303, W = - 12, H = 4\<rparr>
   \<and> UnprojectRect (camera (3, - 4) (- 2, 1 / 2)) (canvas 0 0 800 600)
         \<lparr>Rect.X = 416, Y = 303, W = - 12, H = 4\<rparr>
       = finiteRect \<lparr>Rect.X = 1, Y = 2, W = - 6, H = 8\<rparr>"
  using UnprojectRect_ProjectRect [of "camera (3, - 4) (- 2, 1 / 2)" "canvas 0 0 800 600"
      "\<lparr>Rect.X = 1, Y = 2, W = - 6, H = 8\<rparr>"]
  by (simp add: ProjectRect_closed)

end
